theory Spec2Isabelle
  imports Complex_Main
begin

section \<open>Data model\<close>

text \<open>
  The dashboard is a React single-page application. Its components are functions from
  props and hook state to a rendered tree; its event handlers replace hook state. The
  two lookup tables of \<^verbatim>\<open>ResultsScreen.tsx\<close> are module-level object literals.

  A TypeScript \<^verbatim>\<open>number\<close> is modelled by the exact value of the decimal literal that
  the source writes, as a rational. The program never combines two stored numbers: it
  compares a rank with a literal (\<^verbatim>\<open>result.rank === 1\<close>) and scales a value for display
  (\<^verbatim>\<open>topsisScore * 100\<close>, \<^verbatim>\<open>gdpPerCapita / 1000\<close>). Rounding to a double is monotone, so
  the order of two distinct three-digit literals is the order of their exact values.
\<close>

type_synonym number = rat

text \<open>\<^verbatim>\<open>interface CountryResult\<close> of \<^verbatim>\<open>ResultsScreen.tsx\<close> (the same fields, in another
  order, form \<^verbatim>\<open>CountryDetail\<close> of \<^verbatim>\<open>CountryDetailCard.tsx\<close>).\<close>

record CountryResult =
  rank :: number
  iso :: string
  country :: string
  topsisScore :: number
  rcScore :: number
  gdpPerCapita :: number
  digitalInfra :: number
  jobMarket :: number
  description :: string

text \<open>The value type of \<^verbatim>\<open>scenarioWeights\<close>.\<close>

record ScenarioWeight =
  rc :: number
  gdp :: number
  infra :: number
  job :: number

text \<open>\<^verbatim>\<open>interface Weight\<close> of \<^verbatim>\<open>App.tsx\<close>. The fields \<^verbatim>\<open>id\<close> and \<^verbatim>\<open>value\<close> carry a prime,
  since the plain names are taken.\<close>

record Weight =
  id' :: string
  label :: string
  technicalLabel :: string
  value' :: number

subsection \<open>The static tables\<close>

text \<open>
  \<^verbatim>\<open>scenarioData\<close> is one object literal with five keys. Each key's array is given a name
  of its own here, and the object is the association list of the five, in source order.
\<close>

definition balanced_results :: "CountryResult list" where
  "balanced_results = [
     \<lparr>rank = 1, iso = ''USA'', country = ''United States'', topsisScore = 0.892,
       rcScore = 72.5, gdpPerCapita = 69287, digitalInfra = 88.3, jobMarket = 91.2,
       description = ''The United States leads with balanced excellence across all metrics. Strong job market and digital infrastructure make it ideal for AI startups seeking talent and technical capabilities.''\<rparr>,
     \<lparr>rank = 2, iso = ''GBR'', country = ''United Kingdom'', topsisScore = 0.845,
       rcScore = 68.2, gdpPerCapita = 46125, digitalInfra = 85.7, jobMarket = 84.6,
       description = ''The UK offers a strong regulatory environment and competitive job market, particularly in London. Good balance between market access and talent availability.''\<rparr>,
     \<lparr>rank = 3, iso = ''CAN'', country = ''Canada'', topsisScore = 0.821,
       rcScore = 75.8, gdpPerCapita = 52051, digitalInfra = 83.4, jobMarket = 79.5,
       description = ''Canada provides favorable regulations and a welcoming environment for tech companies. Strong immigration policies support talent acquisition.''\<rparr>,
     \<lparr>rank = 4, iso = ''AUS'', country = ''Australia'', topsisScore = 0.798,
       rcScore = 71.3, gdpPerCapita = 51812, digitalInfra = 82.1, jobMarket = 76.8,
       description = ''Australia combines strong digital infrastructure with a stable regulatory framework. Growing tech ecosystem in Sydney and Melbourne.''\<rparr>,
     \<lparr>rank = 5, iso = ''DEU'', country = ''Germany'', topsisScore = 0.776,
       rcScore = 65.4, gdpPerCapita = 50795, digitalInfra = 81.9, jobMarket = 82.3,
       description = ''Germany offers access to the EU market with strong engineering talent. Regulations favor data privacy and consumer protection.''\<rparr>,
     \<lparr>rank = 6, iso = ''KOR'', country = ''South Korea'', topsisScore = 0.754,
       rcScore = 69.7, gdpPerCapita = 35196, digitalInfra = 92.5, jobMarket = 74.2,
       description = ''South Korea leads in digital infrastructure with world-class connectivity. Strong government support for AI and technology sectors.''\<rparr>]"

definition talent_focused_results :: "CountryResult list" where
  "talent_focused_results = [
     \<lparr>rank = 1, iso = ''USA'', country = ''United States'', topsisScore = 0.921,
       rcScore = 72.5, gdpPerCapita = 69287, digitalInfra = 88.3, jobMarket = 91.2,
       description = ''The United States dominates in AI talent with deep pools in Silicon Valley, Boston, and Seattle. Top universities and competitive compensation attract global talent.''\<rparr>,
     \<lparr>rank = 2, iso = ''GBR'', country = ''United Kingdom'', topsisScore = 0.867,
       rcScore = 68.2, gdpPerCapita = 46125, digitalInfra = 85.7, jobMarket = 84.6,
       description = ''The UK, particularly London, offers strong AI research talent from leading universities like Oxford and Cambridge.''\<rparr>,
     \<lparr>rank = 3, iso = ''DEU'', country = ''Germany'', topsisScore = 0.834,
       rcScore = 65.4, gdpPerCapita = 50795, digitalInfra = 81.9, jobMarket = 82.3,
       description = ''Germany provides excellent engineering talent with strong technical education and research institutions.''\<rparr>,
     \<lparr>rank = 4, iso = ''CAN'', country = ''Canada'', topsisScore = 0.812,
       rcScore = 75.8, gdpPerCapita = 52051, digitalInfra = 83.4, jobMarket = 79.5,
       description = ''Canada has emerged as an AI research hub with centers in Toronto, Montreal, and Vancouver. Immigration-friendly policies attract talent.''\<rparr>,
     \<lparr>rank = 5, iso = ''AUS'', country = ''Australia'', topsisScore = 0.781,
       rcScore = 71.3, gdpPerCapita = 51812, digitalInfra = 82.1, jobMarket = 76.8,
       description = ''Australia offers growing AI talent pools and quality of life that attracts international workers.''\<rparr>,
     \<lparr>rank = 6, iso = ''KOR'', country = ''South Korea'', topsisScore = 0.765,
       rcScore = 69.7, gdpPerCapita = 35196, digitalInfra = 92.5, jobMarket = 74.2,
       description = ''South Korea has strong technical talent in AI and robotics, supported by major tech companies.''\<rparr>]"

definition regulation_focused_results :: "CountryResult list" where
  "regulation_focused_results = [
     \<lparr>rank = 1, iso = ''CAN'', country = ''Canada'', topsisScore = 0.887,
       rcScore = 75.8, gdpPerCapita = 52051, digitalInfra = 83.4, jobMarket = 79.5,
       description = ''Canada leads in regulatory clarity with progressive AI governance frameworks and supportive government policies.''\<rparr>,
     \<lparr>rank = 2, iso = ''USA'', country = ''United States'', topsisScore = 0.856,
       rcScore = 72.5, gdpPerCapita = 69287, digitalInfra = 88.3, jobMarket = 91.2,
       description = ''The US offers relatively favorable regulations with innovation-friendly policies at federal and state levels.''\<rparr>,
     \<lparr>rank = 3, iso = ''AUS'', country = ''Australia'', topsisScore = 0.829,
       rcScore = 71.3, gdpPerCapita = 51812, digitalInfra = 82.1, jobMarket = 76.8,
       description = ''Australia provides clear regulatory frameworks with balanced approach to innovation and consumer protection.''\<rparr>,
     \<lparr>rank = 4, iso = ''KOR'', country = ''South Korea'', topsisScore = 0.801,
       rcScore = 69.7, gdpPerCapita = 35196, digitalInfra = 92.5, jobMarket = 74.2,
       description = ''South Korea maintains tech-friendly regulations with strong government support for AI development.''\<rparr>,
     \<lparr>rank = 5, iso = ''GBR'', country = ''United Kingdom'', topsisScore = 0.778,
       rcScore = 68.2, gdpPerCapita = 46125, digitalInfra = 85.7, jobMarket = 84.6,
       description = ''The UK offers post-Brexit regulatory flexibility while maintaining high standards for AI governance.''\<rparr>,
     \<lparr>rank = 6, iso = ''DEU'', country = ''Germany'', topsisScore = 0.743,
       rcScore = 65.4, gdpPerCapita = 50795, digitalInfra = 81.9, jobMarket = 82.3,
       description = ''Germany follows strict EU regulations with emphasis on data protection and ethical AI deployment.''\<rparr>]"

definition market_focused_results :: "CountryResult list" where
  "market_focused_results = [
     \<lparr>rank = 1, iso = ''USA'', country = ''United States'', topsisScore = 0.905,
       rcScore = 72.5, gdpPerCapita = 69287, digitalInfra = 88.3, jobMarket = 91.2,
       description = ''The United States offers the largest market with highest GDP per capita and consumer spending power.''\<rparr>,
     \<lparr>rank = 2, iso = ''CAN'', country = ''Canada'', topsisScore = 0.871,
       rcScore = 75.8, gdpPerCapita = 52051, digitalInfra = 83.4, jobMarket = 79.5,
       description = ''Canada provides strong purchasing power and serves as gateway to North American markets.''\<rparr>,
     \<lparr>rank = 3, iso = ''AUS'', country = ''Australia'', topsisScore = 0.847,
       rcScore = 71.3, gdpPerCapita = 51812, digitalInfra = 82.1, jobMarket = 76.8,
       description = ''Australia offers high GDP per capita with strong consumer markets in urban centers.''\<rparr>,
     \<lparr>rank = 4, iso = ''DEU'', country = ''Germany'', topsisScore = 0.823,
       rcScore = 65.4, gdpPerCapita = 50795, digitalInfra = 81.9, jobMarket = 82.3,
       description = ''Germany provides access to wealthy European markets as the economic engine of the EU.''\<rparr>,
     \<lparr>rank = 5, iso = ''GBR'', country = ''United Kingdom'', topsisScore = 0.798,
       rcScore = 68.2, gdpPerCapita = 46125, digitalInfra = 85.7, jobMarket = 84.6,
       description = ''The UK offers strong domestic market and serves as financial hub with high-value sectors.''\<rparr>,
     \<lparr>rank = 6, iso = ''KOR'', country = ''South Korea'', topsisScore = 0.721,
       rcScore = 69.7, gdpPerCapita = 35196, digitalInfra = 92.5, jobMarket = 74.2,
       description = ''South Korea has growing market with tech-savvy consumers but lower GDP per capita.''\<rparr>]"

definition infra_focused_results :: "CountryResult list" where
  "infra_focused_results = [
     \<lparr>rank = 1, iso = ''KOR'', country = ''South Korea'', topsisScore = 0.934,
       rcScore = 69.7, gdpPerCapita = 35196, digitalInfra = 92.5, jobMarket = 74.2,
       description = ''South Korea leads globally in digital infrastructure with fastest internet speeds and comprehensive 5G coverage.''\<rparr>,
     \<lparr>rank = 2, iso = ''USA'', country = ''United States'', topsisScore = 0.891,
       rcScore = 72.5, gdpPerCapita = 69287, digitalInfra = 88.3, jobMarket = 91.2,
       description = ''The US provides world-class cloud infrastructure with major data centers and tech infrastructure.''\<rparr>,
     \<lparr>rank = 3, iso = ''GBR'', country = ''United Kingdom'', topsisScore = 0.862,
       rcScore = 68.2, gdpPerCapita = 46125, digitalInfra = 85.7, jobMarket = 84.6,
       description = ''The UK offers strong digital connectivity and well-developed tech infrastructure in major cities.''\<rparr>,
     \<lparr>rank = 4, iso = ''CAN'', country = ''Canada'', topsisScore = 0.839,
       rcScore = 75.8, gdpPerCapita = 52051, digitalInfra = 83.4, jobMarket = 79.5,
       description = ''Canada maintains excellent digital infrastructure with reliable connectivity across urban centers.''\<rparr>,
     \<lparr>rank = 5, iso = ''AUS'', country = ''Australia'', topsisScore = 0.817,
       rcScore = 71.3, gdpPerCapita = 51812, digitalInfra = 82.1, jobMarket = 76.8,
       description = ''Australia has invested heavily in digital infrastructure despite geographic challenges.''\<rparr>,
     \<lparr>rank = 6, iso = ''DEU'', country = ''Germany'', topsisScore = 0.795,
       rcScore = 65.4, gdpPerCapita = 50795, digitalInfra = 81.9, jobMarket = 82.3,
       description = ''Germany offers solid infrastructure though lags behind leaders in certain connectivity metrics.''\<rparr>]"

definition scenarioData :: "(string \<times> CountryResult list) list" where
  "scenarioData = [
     (''balanced'', balanced_results),
     (''talent-focused'', talent_focused_results),
     (''regulation-focused'', regulation_focused_results),
     (''market-focused'', market_focused_results),
     (''infra-focused'', infra_focused_results)]"

definition scenarioWeights :: "(string \<times> ScenarioWeight) list" where
  "scenarioWeights = [
     (''balanced'', \<lparr>rc = 0.25, gdp = 0.25, infra = 0.25, job = 0.25\<rparr>),
     (''talent-focused'', \<lparr>rc = 0.20, gdp = 0.20, infra = 0.20, job = 0.40\<rparr>),
     (''regulation-focused'', \<lparr>rc = 0.40, gdp = 0.20, infra = 0.20, job = 0.20\<rparr>),
     (''market-focused'', \<lparr>rc = 0.20, gdp = 0.40, infra = 0.20, job = 0.20\<rparr>),
     (''infra-focused'', \<lparr>rc = 0.20, gdp = 0.20, infra = 0.40, job = 0.20\<rparr>)]"

section \<open>Components\<close>

text \<open>
  A component is modelled by the tree it returns, reduced to its content: the texts and
  numbers it shows, the flags that pick a highlighting class, and the event each
  clickable element delivers. Layout classes and decorative elements carry no data
  and are left out.
\<close>

text \<open>The user events of the page, named after the callback prop each one invokes.\<close>

datatype event =
    StrategyClick string          \<comment> \<open>\<^verbatim>\<open>onStrategyChange(strategy.id)\<close>\<close>
  | SliderChange string number    \<comment> \<open>\<^verbatim>\<open>onWeightChange(weight.id, values[0])\<close>\<close>
  | RunAnalysis                   \<comment> \<open>\<^verbatim>\<open>onClick={handleRunAnalysis}\<close>\<close>
  | Back                          \<comment> \<open>\<^verbatim>\<open>onClick={onBack}\<close>\<close>
  | ScenarioClick string          \<comment> \<open>\<^verbatim>\<open>onScenarioChange(scenario.id)\<close>\<close>
  | RowClick string               \<comment> \<open>\<^verbatim>\<open>onCountrySelect(result.iso)\<close>\<close>

text \<open>How a value is interpolated into the page: a string, a number printed as it is,
  \<^verbatim>\<open>x.toFixed(d)\<close>, or \<^verbatim>\<open>x.toLocaleString()\<close>.\<close>

datatype shown = Str string | Plain number | Fixed nat number | Locale number

subsection \<open>ScenarioTabs\<close>

record ScenarioTab =
  tab_id :: string
  tab_label :: string

definition scenarios :: "ScenarioTab list" where
  "scenarios = [
     \<lparr>tab_id = ''balanced'', tab_label = ''Balanced''\<rparr>,
     \<lparr>tab_id = ''talent-focused'', tab_label = ''Talent-Focused''\<rparr>,
     \<lparr>tab_id = ''regulation-focused'', tab_label = ''Regulation-Focused''\<rparr>,
     \<lparr>tab_id = ''market-focused'', tab_label = ''Market-Focused''\<rparr>,
     \<lparr>tab_id = ''infra-focused'', tab_label = ''Infra-Focused''\<rparr>]"

record Button =
  caption :: string
  active :: bool
  onClick :: event

definition ScenarioTabs :: "string \<Rightarrow> Button list" where
  "ScenarioTabs selectedScenario =
     map (\<lambda>scenario.
            \<lparr>caption = tab_label scenario,
             active = (selectedScenario = tab_id scenario),
             onClick = ScenarioClick (tab_id scenario)\<rparr>)
         scenarios"

subsection \<open>StrategySelector\<close>

record Strategy =
  strategy_id :: string
  title :: string
  subtitle :: string

definition strategies :: "Strategy list" where
  "strategies = [
     \<lparr>strategy_id = ''balanced'', title = ''Balanced'',
       subtitle = ''Equal consideration across all factors''\<rparr>,
     \<lparr>strategy_id = ''talent-focused'', title = ''Talent-Focused'',
       subtitle = ''For AI startups that care about hiring''\<rparr>,
     \<lparr>strategy_id = ''regulation-focused'', title = ''Regulation-Focused'',
       subtitle = ''Prioritize favorable regulatory environments''\<rparr>,
     \<lparr>strategy_id = ''market-focused'', title = ''Market-Focused'',
       subtitle = ''Emphasize market size and economic potential''\<rparr>,
     \<lparr>strategy_id = ''infra-focused'', title = ''Infra-Focused'',
       subtitle = ''Optimize for digital infrastructure quality''\<rparr>]"

record StrategyButton = Button +
  caption2 :: string

definition StrategySelector :: "string \<Rightarrow> StrategyButton list" where
  "StrategySelector selectedStrategy =
     map (\<lambda>strategy.
            \<lparr>caption = title strategy,
             active = (selectedStrategy = strategy_id strategy),
             onClick = StrategyClick (strategy_id strategy),
             caption2 = subtitle strategy\<rparr>)
         strategies"

subsection \<open>WeightAdjuster\<close>

text \<open>One slider per weight. A slider delivers \<^verbatim>\<open>onWeightChange(weight.id, values[0])\<close>
  for whatever value the user drags it to, so it is recorded by the id it reports.\<close>

record SliderRow =
  slider_label :: string
  slider_technicalLabel :: string
  slider_percent :: shown
  slider_value :: number
  slider_id :: string

definition WeightAdjuster :: "Weight list \<Rightarrow> SliderRow list" where
  "WeightAdjuster weights =
     map (\<lambda>weight.
            \<lparr>slider_label = label weight,
             slider_technicalLabel = technicalLabel weight,
             slider_percent = Plain (value' weight),
             slider_value = value' weight,
             slider_id = id' weight\<rparr>)
         weights"

subsection \<open>ResultsTable\<close>

datatype badge = Gold | Silver | Bronze | Grey

record TableRow =
  row_key :: string
  row_onClick :: event
  row_highlighted :: bool
  row_badge :: badge
  row_cells :: "shown list"
  row_barWidth :: number

definition ResultsTable_row :: "string option \<Rightarrow> CountryResult \<Rightarrow> TableRow" where
  "ResultsTable_row selectedCountry result =
     \<lparr>row_key = iso result,
      row_onClick = RowClick (iso result),
      row_highlighted = (selectedCountry = Some (iso result)),
      row_badge = (if rank result = 1 then Gold
                   else if rank result = 2 then Silver
                   else if rank result = 3 then Bronze
                   else Grey),
      row_cells = [Plain (rank result), Str (iso result), Str (country result),
                   Fixed 3 (topsisScore result), Fixed 2 (rcScore result),
                   Locale (gdpPerCapita result), Fixed 2 (digitalInfra result),
                   Fixed 2 (jobMarket result)],
      row_barWidth = topsisScore result * 100\<rparr>"

definition ResultsTable :: "CountryResult list \<Rightarrow> string option \<Rightarrow> TableRow list" where
  "ResultsTable results selectedCountry = map (ResultsTable_row selectedCountry) results"

subsection \<open>CountryDetailCard\<close>

record RadarPoint =
  metric :: string
  radar_value :: number
  fullMark :: number

record DetailView =
  detail_heading :: string
  detail_rank :: shown
  detail_score :: shown
  detail_iso :: string
  radarData :: "RadarPoint list"
  radar_name :: string
  detail_metrics :: "(string \<times> shown) list"
  detail_description :: string

datatype CardView = Placeholder string | Detail DetailView

text \<open>\<^verbatim>\<open>if (!countryDetail)\<close>: the prop is an object or \<^verbatim>\<open>null\<close>, and every object is
  truthy, so the first branch is taken exactly for \<^verbatim>\<open>null\<close>.\<close>

fun CountryDetailCard :: "CountryResult option \<Rightarrow> CardView" where
  "CountryDetailCard None = Placeholder ''Select a country to view details''"
| "CountryDetailCard (Some countryDetail) =
     Detail
       \<lparr>detail_heading = country countryDetail,
        detail_rank = Plain (rank countryDetail),
        detail_score = Fixed 3 (topsisScore countryDetail),
        detail_iso = iso countryDetail,
        radarData = [
          \<lparr>metric = ''RC Score'', radar_value = rcScore countryDetail, fullMark = 100\<rparr>,
          \<lparr>metric = ''GDP/Capita'', radar_value = gdpPerCapita countryDetail / 1000,
            fullMark = 100\<rparr>,
          \<lparr>metric = ''Digital Infra'', radar_value = digitalInfra countryDetail,
            fullMark = 100\<rparr>,
          \<lparr>metric = ''Job Market'', radar_value = jobMarket countryDetail, fullMark = 100\<rparr>],
        radar_name = country countryDetail,
        detail_metrics = [
          (''Regulation Complexity'', Fixed 2 (rcScore countryDetail)),
          (''GDP per Capita'', Fixed 0 (gdpPerCapita countryDetail / 1000)),
          (''Digital Infrastructure'', Fixed 2 (digitalInfra countryDetail)),
          (''Job Market Index'', Fixed 2 (jobMarket countryDetail))],
        detail_description = description countryDetail\<rparr>"

subsection \<open>ResultsScreen\<close>

text \<open>
  The hook state of a mounted \<^verbatim>\<open>ResultsScreen\<close>: \<^verbatim>\<open>selectedScenario\<close> is a string,
  \<^verbatim>\<open>selectedCountry\<close> a string or \<^verbatim>\<open>null\<close>. The initial values are the arguments of
  the two \<^verbatim>\<open>useState\<close> calls.
\<close>

record ResultsState =
  selectedScenario :: string
  selectedCountry :: "string option"

definition initialResultsState :: ResultsState where
  "initialResultsState =
     \<lparr>selectedScenario = ''talent-focused'', selectedCountry = Some ''USA''\<rparr>"

text \<open>Reading a property of \<^verbatim>\<open>undefined\<close> throws, and the render has no result.\<close>

datatype error = TypeError

text \<open>\<^verbatim>\<open>s.replace('-', ' ')\<close> with a string pattern replaces the first occurrence only.\<close>

fun replace_first :: "char \<Rightarrow> char \<Rightarrow> string \<Rightarrow> string" where
  "replace_first a b [] = []"
| "replace_first a b (c # cs) = (if c = a then b # cs else c # replace_first a b cs)"

text \<open>\<^verbatim>\<open>currentResults.find(c => c.iso === selectedCountry) || null\<close>: the first record
  whose code is the selected one; \<^verbatim>\<open>undefined\<close> and \<^verbatim>\<open>null\<close> are both \<open>None\<close>. With
  \<^verbatim>\<open>selectedCountry\<close> \<^verbatim>\<open>null\<close> the strict comparison is false for every record.\<close>

definition selectedCountryDetail ::
  "CountryResult list \<Rightarrow> string option \<Rightarrow> CountryResult option" where
  "selectedCountryDetail currentResults selected =
     find (\<lambda>c. Some (iso c) = selected) currentResults"

record ResultsView =
  backButton :: event
  tabs :: "Button list"
  activeScenario :: string
  infoWeights :: "(string \<times> shown) list"
  table :: "TableRow list"
  card :: CardView

text \<open>
  The two tables are objects of the module, so the component reads them from the store
  it is given. An object lookup by a key the object does not own yields \<^verbatim>\<open>undefined\<close>
  (or, for a name inherited from \<^verbatim>\<open>Object.prototype\<close>, a value with no \<^verbatim>\<open>find\<close>
  method), and the call \<^verbatim>\<open>currentResults.find(...)\<close> on it throws; likewise
  \<^verbatim>\<open>currentWeights.rc\<close> on \<^verbatim>\<open>undefined\<close>. The lookups are in source order.
\<close>

definition ResultsScreen ::
  "(string \<times> CountryResult list) list \<Rightarrow> (string \<times> ScenarioWeight) list \<Rightarrow>
   ResultsState \<Rightarrow> error + ResultsView" where
  "ResultsScreen dataTable weightTable st =
     (case map_of dataTable (selectedScenario st) of
        None \<Rightarrow> Inl TypeError
      | Some currentResults \<Rightarrow>
          (case map_of weightTable (selectedScenario st) of
             None \<Rightarrow> Inl TypeError
           | Some currentWeights \<Rightarrow>
               Inr \<lparr>backButton = Back,
                    tabs = ScenarioTabs (selectedScenario st),
                    activeScenario =
                      replace_first (CHR ''-'') (CHR '' '') (selectedScenario st),
                    infoWeights = [
                      (''RC'', Fixed 2 (rc currentWeights)),
                      (''GDP'', Fixed 2 (gdp currentWeights)),
                      (''Infra'', Fixed 2 (infra currentWeights)),
                      (''Job'', Fixed 2 (job currentWeights))],
                    table = ResultsTable currentResults (selectedCountry st),
                    card = CountryDetailCard
                             (selectedCountryDetail currentResults (selectedCountry st))\<rparr>))"

section \<open>The application\<close>

text \<open>
  The whole page: the two module-level tables (objects, which a handler could in
  principle write to), the console, the hook state of \<^verbatim>\<open>App\<close>, and the hook state of
  \<^verbatim>\<open>ResultsScreen\<close> while that component is mounted.
\<close>

datatype logged = LogStrategy string | LogWeights "Weight list"

record Program =
  dataTable :: "(string \<times> CountryResult list) list"
  weightTable :: "(string \<times> ScenarioWeight) list"
  console :: "logged list"
  showResults :: bool
  selectedStrategy :: string
  weights :: "Weight list"
  resultsScreen :: "ResultsState option"

definition initialWeights :: "Weight list" where
  "initialWeights = [
     \<lparr>id' = ''regulation'', label = ''Regulation Complexity'',
       technicalLabel = ''RC_score'', value' = 25\<rparr>,
     \<lparr>id' = ''market'', label = ''Market Size'',
       technicalLabel = ''gdp_per_capita'', value' = 25\<rparr>,
     \<lparr>id' = ''infrastructure'', label = ''Digital Infrastructure'',
       technicalLabel = ''digital_infra_index'', value' = 25\<rparr>,
     \<lparr>id' = ''talent'', label = ''AI Job Market'',
       technicalLabel = ''ai_job_market_score'', value' = 25\<rparr>]"

definition initialProgram :: Program where
  "initialProgram =
     \<lparr>dataTable = scenarioData, weightTable = scenarioWeights, console = [],
      showResults = False, selectedStrategy = ''balanced'', weights = initialWeights,
      resultsScreen = None\<rparr>"

subsection \<open>Event handlers\<close>

text \<open>
  Every event is followed by a render, so a handler's closure holds the current state.
  \<^verbatim>\<open>setWeights(weights.map(w => w.id === id ? { ...w, value } : w))\<close>: a new array of the
  same length, where an entry with the given id is a copy with \<^verbatim>\<open>value\<close> replaced.
\<close>

definition handleWeightChange :: "string \<Rightarrow> number \<Rightarrow> Program \<Rightarrow> Program" where
  "handleWeightChange i v p =
     p\<lparr>weights := map (\<lambda>w. if id' w = i then w\<lparr>value' := v\<rparr> else w) (weights p)\<rparr>"

text \<open>The two \<^verbatim>\<open>console.log\<close> calls append to the console; then \<^verbatim>\<open>setShowResults(true)\<close>.\<close>

definition handleRunAnalysis :: "Program \<Rightarrow> Program" where
  "handleRunAnalysis p =
     p\<lparr>console := console p @ [LogStrategy (selectedStrategy p), LogWeights (weights p)],
       showResults := True\<rparr>"

text \<open>The state setters passed down as props. The two of \<^verbatim>\<open>ResultsScreen\<close> exist only
  while it is mounted.\<close>

definition setSelectedStrategy :: "string \<Rightarrow> Program \<Rightarrow> Program" where
  "setSelectedStrategy strategyId p = p\<lparr>selectedStrategy := strategyId\<rparr>"

definition setShowResults :: "bool \<Rightarrow> Program \<Rightarrow> Program" where
  "setShowResults b p = p\<lparr>showResults := b\<rparr>"

definition setSelectedScenario :: "string \<Rightarrow> Program \<Rightarrow> Program" where
  "setSelectedScenario scenario p =
     p\<lparr>resultsScreen :=
         map_option (\<lambda>st. st\<lparr>selectedScenario := scenario\<rparr>) (resultsScreen p)\<rparr>"

definition setSelectedCountry :: "string \<Rightarrow> Program \<Rightarrow> Program" where
  "setSelectedCountry code p =
     p\<lparr>resultsScreen :=
         map_option (\<lambda>st. st\<lparr>selectedCountry := Some code\<rparr>) (resultsScreen p)\<rparr>"

text \<open>
  After a state update React renders \<^verbatim>\<open>App\<close> again. When the new tree contains
  \<^verbatim>\<open>ResultsScreen\<close> and the old one did not, the component is mounted with its initial
  hook state; when the new tree no longer contains it, its hook state is discarded.
\<close>

definition reconcile :: "Program \<Rightarrow> Program" where
  "reconcile p =
     (if showResults p
      then (case resultsScreen p of
              None \<Rightarrow> p\<lparr>resultsScreen := Some initialResultsState\<rparr>
            | Some st \<Rightarrow> p)
      else p\<lparr>resultsScreen := None\<rparr>)"

fun handler :: "event \<Rightarrow> Program \<Rightarrow> Program" where
  "handler (StrategyClick strategyId) = setSelectedStrategy strategyId"
| "handler (SliderChange i v) = handleWeightChange i v"
| "handler RunAnalysis = handleRunAnalysis"
| "handler Back = setShowResults False"
| "handler (ScenarioClick scenario) = setSelectedScenario scenario"
| "handler (RowClick code) = setSelectedCountry code"

definition handle :: "event \<Rightarrow> Program \<Rightarrow> Program" where
  "handle e p = reconcile (handler e p)"

subsection \<open>App\<close>

record ConfigView =
  strategyButtons :: "StrategyButton list"
  sliders :: "SliderRow list"
  runButton :: event

datatype View = Config ConfigView | Results ResultsView

text \<open>\<^verbatim>\<open>App\<close> returns \<^verbatim>\<open><ResultsScreen onBack={...} />\<close> when \<^verbatim>\<open>showResults\<close> holds: the
  only prop is the callback, which is \<^verbatim>\<open>() => setShowResults(false)\<close>. On the first such
  render the hook state of \<^verbatim>\<open>ResultsScreen\<close> is the initial one.\<close>

definition App :: "Program \<Rightarrow> error + View" where
  "App p =
     (if showResults p
      then map_sum (\<lambda>e. e) Results
             (ResultsScreen (dataTable p) (weightTable p)
                (case resultsScreen p of None \<Rightarrow> initialResultsState | Some st \<Rightarrow> st))
      else Inr (Config \<lparr>strategyButtons = StrategySelector (selectedStrategy p),
                        sliders = WeightAdjuster (weights p),
                        runButton = RunAnalysis\<rparr>))"

subsection \<open>Runs\<close>

text \<open>The events a rendered page can deliver: one per button, tab and table row, and
  one per slider and value.\<close>

fun offers :: "View \<Rightarrow> event \<Rightarrow> bool" where
  "offers (Config v) (StrategyClick i) = (StrategyClick i \<in> set (map onClick (strategyButtons v)))"
| "offers (Config v) (SliderChange i x) = (i \<in> set (map slider_id (sliders v)))"
| "offers (Config v) RunAnalysis = (runButton v = RunAnalysis)"
| "offers (Results v) Back = (backButton v = Back)"
| "offers (Results v) (ScenarioClick i) = (ScenarioClick i \<in> set (map onClick (tabs v)))"
| "offers (Results v) (RowClick i) = (RowClick i \<in> set (map row_onClick (table v)))"
| "offers _ _ = False"

text \<open>One step: the page is rendered, the user triggers one of the events it offers,
  the handler runs and React renders again. A page whose render threw offers nothing.\<close>

definition step :: "Program \<Rightarrow> event \<Rightarrow> Program option" where
  "step p e =
     (case App p of
        Inl err \<Rightarrow> None
      | Inr v \<Rightarrow> if offers v e then Some (handle e p) else None)"

fun run :: "Program \<Rightarrow> event list \<Rightarrow> Program option" where
  "run p [] = Some p"
| "run p (e # es) = (case step p e of None \<Rightarrow> None | Some p' \<Rightarrow> run p' es)"

subsection \<open>Predicates used by the statements and proofs\<close>

text \<open>The events that stay on the results screen: a tab click or a row click.\<close>

fun results_event :: "event \<Rightarrow> bool" where
  "results_event (ScenarioClick i) = True"
| "results_event (RowClick i) = True"
| "results_event e = False"

text \<open>The six country codes that occur in the tables.\<close>

definition countryCodes :: "string list" where
  "countryCodes = [''USA'', ''GBR'', ''CAN'', ''AUS'', ''DEU'', ''KOR'']"

text \<open>The invariant of the runs from the initial page: the tables are the static ones,
  \<^verbatim>\<open>ResultsScreen\<close> is mounted exactly while \<^verbatim>\<open>showResults\<close> holds, its scenario is one of
  the tab identifiers and its country one of the six codes.\<close>

definition wellformed :: "Program \<Rightarrow> bool" where
  "wellformed p =
     (dataTable p = scenarioData \<and> weightTable p = scenarioWeights \<and>
      (case resultsScreen p of
         None \<Rightarrow> \<not> showResults p
       | Some st \<Rightarrow> showResults p \<and> selectedScenario st \<in> set (map tab_id scenarios) \<and>
           (case selectedCountry st of None \<Rightarrow> False | Some c \<Rightarrow> c \<in> set countryCodes)))"

text \<open>Two pages agree on everything but the configuration (strategy, sliders) and the
  console.\<close>

definition same_results :: "Program \<Rightarrow> Program \<Rightarrow> bool" where
  "same_results p q =
     (dataTable p = dataTable q \<and> weightTable p = weightTable q \<and>
      showResults p = showResults q \<and> resultsScreen p = resultsScreen q)"

text \<open>The four indicator values of each country, as they stand in the \<^verbatim>\<open>balanced\<close> list;
  the proofs show that every scenario repeats them.\<close>

definition metricsTable :: "(string \<times> number \<times> number \<times> number \<times> number) list" where
  "metricsTable =
     [(''USA'', 72.5, 69287, 88.3, 91.2), (''GBR'', 68.2, 46125, 85.7, 84.6),
      (''CAN'', 75.8, 52051, 83.4, 79.5), (''AUS'', 71.3, 51812, 82.1, 76.8),
      (''DEU'', 65.4, 50795, 81.9, 82.3), (''KOR'', 69.7, 35196, 92.5, 74.2)]"

section \<open>Auxiliary facts\<close>

text \<open>Keys and codes of the tables, and the invariant of the runs.\<close>

lemmas results_defs = balanced_results_def talent_focused_results_def
  regulation_focused_results_def market_focused_results_def infra_focused_results_def

lemma tab_ids: "map tab_id scenarios =
  [''balanced'', ''talent-focused'', ''regulation-focused'', ''market-focused'', ''infra-focused'']"
  by (simp add: scenarios_def)

lemma data_keys: "map fst scenarioData = map tab_id scenarios"
  by (simp add: scenarioData_def scenarios_def)

lemma weight_keys: "map fst scenarioWeights = map tab_id scenarios"
  by (simp add: scenarioWeights_def scenarios_def)

lemma data_codes:
  "\<forall>(k, rs) \<in> set scenarioData. set (map iso rs) = set countryCodes \<and> distinct (map iso rs)"
  by (simp add: scenarioData_def results_defs countryCodes_def insert_commute)

lemma lookup_tab:
  assumes "sc \<in> set (map tab_id scenarios)"
  shows "\<exists>rs w. map_of scenarioData sc = Some rs \<and> map_of scenarioWeights sc = Some w"
proof -
  have "sc \<in> fst ` set scenarioData" using assms data_keys by (metis set_map)
  then obtain rs where "map_of scenarioData sc = Some rs"
    by (metis domD dom_map_of_conv_image_fst)
  moreover have "sc \<in> fst ` set scenarioWeights" using assms weight_keys by (metis set_map)
  then obtain w where "map_of scenarioWeights sc = Some w"
    by (metis domD dom_map_of_conv_image_fst)
  ultimately show ?thesis by blast
qed

lemma lookup_codes:
  assumes "map_of scenarioData sc = Some rs"
  shows "set (map iso rs) = set countryCodes"
  using map_of_SomeD[OF assms] data_codes by fastforce

lemmas handler_defs = handle_def reconcile_def setSelectedStrategy_def handleWeightChange_def
  handleRunAnalysis_def setShowResults_def setSelectedScenario_def setSelectedCountry_def

lemma wellformed_initial: "wellformed initialProgram"
  by (simp add: wellformed_def initialProgram_def)

lemma handle_tables:
  "dataTable (handle e p) = dataTable p \<and> weightTable (handle e p) = weightTable p"
  by (cases e)
     (simp_all add: handle_def reconcile_def setSelectedStrategy_def handleWeightChange_def
        handleRunAnalysis_def setShowResults_def setSelectedScenario_def setSelectedCountry_def
        split: option.split)

lemma ResultsScreen_Some:
  assumes "map_of dt (selectedScenario st) = Some rs" "map_of wt (selectedScenario st) = Some w"
  shows "ResultsScreen dt wt st =
             Inr \<lparr>backButton = Back,
                  tabs = ScenarioTabs (selectedScenario st),
                  activeScenario = replace_first (CHR ''-'') (CHR '' '') (selectedScenario st),
                  infoWeights = [(''RC'', Fixed 2 (rc w)), (''GDP'', Fixed 2 (gdp w)),
                                 (''Infra'', Fixed 2 (infra w)), (''Job'', Fixed 2 (job w))],
                  table = ResultsTable rs (selectedCountry st),
                  card = CountryDetailCard (selectedCountryDetail rs (selectedCountry st))\<rparr>"
  using assms by (simp add: ResultsScreen_def)

lemma wellformed_step:
  assumes wf: "wellformed p" and st: "step p e = Some p'"
  shows "wellformed p'"
proof -
  from st obtain v where v: "App p = Inr v" and off: "offers v e" and p': "p' = handle e p"
    by (auto simp: step_def split: sum.splits if_splits)
  have tabs: "dataTable p' = scenarioData" "weightTable p' = scenarioWeights"
    using wf handle_tables[of e p] p' by (simp_all add: wellformed_def)
  show ?thesis
  proof (cases "showResults p")
    case False
    with wf have none: "resultsScreen p = None"
      by (auto simp: wellformed_def split: option.splits)
    from False v have "\<exists>c. v = Config c" by (auto simp: App_def)
    then obtain c where c: "v = Config c" ..
    from off c consider (s) i where "e = StrategyClick i" | (w) i x where "e = SliderChange i x"
      | (r) "e = RunAnalysis"
      by (cases e) auto
    then show ?thesis
    proof cases
      case s
      then show ?thesis using wf False none p'
        by (simp add: wellformed_def handle_def reconcile_def setSelectedStrategy_def)
    next
      case w
      then show ?thesis using wf False none p'
        by (simp add: wellformed_def handle_def reconcile_def handleWeightChange_def)
    next
      case r
      then show ?thesis using wf False none p'
        by (simp add: wellformed_def handle_def reconcile_def handleRunAnalysis_def
            initialResultsState_def scenarios_def countryCodes_def)
    qed
  next
    case True
    with wf obtain st c where st: "resultsScreen p = Some st"
      and sc: "selectedScenario st \<in> set (map tab_id scenarios)"
      and cc: "selectedCountry st = Some c" "c \<in> set countryCodes"
      by (auto simp: wellformed_def split: option.splits)
    from lookup_tab[OF sc] obtain rs w where
      rs: "map_of scenarioData (selectedScenario st) = Some rs" and
      ws: "map_of scenarioWeights (selectedScenario st) = Some w"
      by blast
    note rv = ResultsScreen_Some[OF rs ws]
    from v True st wf rv obtain r where r: "v = Results r"
      and rt: "tabs r = ScenarioTabs (selectedScenario st)"
      and rr: "table r = ResultsTable rs (selectedCountry st)"
      by (auto simp: App_def wellformed_def)
    from off r consider (b) "e = Back" | (s) i where "e = ScenarioClick i"
        "ScenarioClick i \<in> set (map onClick (tabs r))"
      | (c) i where "e = RowClick i" "RowClick i \<in> set (map row_onClick (table r))"
      by (cases e) auto
    then show ?thesis
    proof cases
      case b
      then show ?thesis using wf True st p'
        by (simp add: wellformed_def handle_def reconcile_def setShowResults_def)
    next
      case s
      from s(2) rt have "i \<in> set (map tab_id scenarios)"
        by (auto simp: ScenarioTabs_def)
      then show ?thesis using wf True st p' s(1) cc
        by (simp add: wellformed_def handle_def reconcile_def setSelectedScenario_def)
    next
      case c
      from c(2) rr have "i \<in> set (map iso rs)"
        by (auto simp: ResultsTable_def ResultsTable_row_def)
      with lookup_codes[OF rs] have "i \<in> set countryCodes" by simp
      then show ?thesis using wf True st p' c(1) sc
        by (simp add: wellformed_def handle_def reconcile_def setSelectedCountry_def)
    qed
  qed
qed

lemma wellformed_run:
  "wellformed p \<Longrightarrow> run p es = Some p' \<Longrightarrow> wellformed p'"
proof (induction es arbitrary: p)
  case Nil
  then show ?case by simp
next
  case (Cons e es)
  from Cons.prems(2) obtain q where q: "step p e = Some q" and r: "run q es = Some p'"
    by (auto split: option.splits)
  from wellformed_step[OF Cons.prems(1) q] have "wellformed q" .
  from Cons.IH[OF this r] show ?case .
qed
text \<open>Lookups at the five keys, the initial page, and single steps of a rendered page.\<close>

lemma data_lookup:
  "map_of scenarioData ''balanced'' = Some balanced_results"
  "map_of scenarioData ''talent-focused'' = Some talent_focused_results"
  "map_of scenarioData ''regulation-focused'' = Some regulation_focused_results"
  "map_of scenarioData ''market-focused'' = Some market_focused_results"
  "map_of scenarioData ''infra-focused'' = Some infra_focused_results"
  by (simp_all add: scenarioData_def)

lemma weight_lookup:
  "map_of scenarioWeights ''balanced'' = Some \<lparr>rc = 0.25, gdp = 0.25, infra = 0.25, job = 0.25\<rparr>"
  "map_of scenarioWeights ''talent-focused'' = Some \<lparr>rc = 0.20, gdp = 0.20, infra = 0.20, job = 0.40\<rparr>"
  "map_of scenarioWeights ''regulation-focused'' = Some \<lparr>rc = 0.40, gdp = 0.20, infra = 0.20, job = 0.20\<rparr>"
  "map_of scenarioWeights ''market-focused'' = Some \<lparr>rc = 0.20, gdp = 0.40, infra = 0.20, job = 0.20\<rparr>"
  "map_of scenarioWeights ''infra-focused'' = Some \<lparr>rc = 0.20, gdp = 0.20, infra = 0.40, job = 0.20\<rparr>"
  by (simp_all add: scenarioWeights_def)

lemma iso_lists:
  "map iso balanced_results = [''USA'', ''GBR'', ''CAN'', ''AUS'', ''DEU'', ''KOR'']"
  "map iso talent_focused_results = [''USA'', ''GBR'', ''DEU'', ''CAN'', ''AUS'', ''KOR'']"
  "map iso regulation_focused_results = [''CAN'', ''USA'', ''AUS'', ''KOR'', ''GBR'', ''DEU'']"
  "map iso market_focused_results = [''USA'', ''CAN'', ''AUS'', ''DEU'', ''GBR'', ''KOR'']"
  "map iso infra_focused_results = [''KOR'', ''USA'', ''GBR'', ''CAN'', ''AUS'', ''DEU'']"
  by (simp_all add: results_defs)

lemma initial_fields:
  "dataTable initialProgram = scenarioData"
  "weightTable initialProgram = scenarioWeights"
  "console initialProgram = []"
  "showResults initialProgram = False"
  "selectedStrategy initialProgram = ''balanced''"
  "weights initialProgram = initialWeights"
  "resultsScreen initialProgram = None"
  by (simp_all add: initialProgram_def)

lemma table_clicks: "map row_onClick (ResultsTable rs sel) = map (\<lambda>c. RowClick c) (map iso rs)"
  by (simp add: ResultsTable_def ResultsTable_row_def)

lemma tab_clicks: "map onClick (ScenarioTabs s) = map (\<lambda>c. ScenarioClick c) (map tab_id scenarios)"
  by (simp add: ScenarioTabs_def)

lemma step_mounted:
  assumes "dataTable p = scenarioData" "weightTable p = scenarioWeights" "showResults p"
    "resultsScreen p = Some st"
    "map_of scenarioData (selectedScenario st) = Some rs"
    "map_of scenarioWeights (selectedScenario st) = Some w"
  shows "step p (ScenarioClick i) =
           (if i \<in> set (map tab_id scenarios) then Some (handle (ScenarioClick i) p) else None)"
    and "step p (RowClick i) =
           (if i \<in> set (map iso rs) then Some (handle (RowClick i) p) else None)"
    and "step p Back = Some (handle Back p)"
  using assms
  by (auto simp: step_def App_def ResultsScreen_Some[OF assms(5,6)] table_clicks tab_clicks)

lemma step_config:
  assumes "\<not> showResults p"
  shows "step p RunAnalysis = Some (handle RunAnalysis p)"
    and "step p (StrategyClick i) =
           (if i \<in> set (map strategy_id strategies) then Some (handle (StrategyClick i) p) else None)"
    and "step p (SliderChange i x) =
           (if i \<in> set (map id' (weights p)) then Some (handle (SliderChange i x) p) else None)"
  using assms
  by (auto simp: step_def App_def StrategySelector_def WeightAdjuster_def)

lemma handle_RunAnalysis_initial: "handle RunAnalysis initialProgram =
   initialProgram\<lparr>console := [LogStrategy ''balanced'', LogWeights initialWeights],
     showResults := True, resultsScreen := Some initialResultsState\<rparr>"
  by (simp add: handler_defs initial_fields)

lemma run_to_infra_KOR: "run initialProgram [RunAnalysis, RowClick ''KOR'', ScenarioClick ''infra-focused''] =
   Some (initialProgram\<lparr>console := [LogStrategy ''balanced'', LogWeights initialWeights],
     showResults := True, resultsScreen := Some \<lparr>selectedScenario = ''infra-focused'', selectedCountry = Some ''KOR''\<rparr>\<rparr>)"
proof -
  let ?p1 = "handle RunAnalysis initialProgram"
  have s1: "step initialProgram RunAnalysis = Some ?p1"
    by (simp add: step_config initial_fields)
  have f1: "dataTable ?p1 = scenarioData" "weightTable ?p1 = scenarioWeights" "showResults ?p1"
    "resultsScreen ?p1 = Some initialResultsState"
    by (simp_all add: handle_RunAnalysis_initial initial_fields)
  have s2: "step ?p1 (RowClick ''KOR'') = Some (handle (RowClick ''KOR'') ?p1)"
    by (subst step_mounted(2)[OF f1, of talent_focused_results])
       (simp_all add: initialResultsState_def data_lookup weight_lookup iso_lists)
  let ?p2 = "handle (RowClick ''KOR'') ?p1"
  have h2: "?p2 = initialProgram\<lparr>console := [LogStrategy ''balanced'', LogWeights initialWeights],
     showResults := True, resultsScreen := Some \<lparr>selectedScenario = ''talent-focused'', selectedCountry = Some ''KOR''\<rparr>\<rparr>"
    by (simp add: handle_RunAnalysis_initial) (simp add: handler_defs initialResultsState_def)
  have f2: "dataTable ?p2 = scenarioData" "weightTable ?p2 = scenarioWeights" "showResults ?p2"
    "resultsScreen ?p2 = Some \<lparr>selectedScenario = ''talent-focused'', selectedCountry = Some ''KOR''\<rparr>"
    by (simp_all add: h2 initial_fields)
  have s3: "step ?p2 (ScenarioClick ''infra-focused'') = Some (handle (ScenarioClick ''infra-focused'') ?p2)"
    by (subst step_mounted(1)[OF f2, of talent_focused_results])
       (simp_all add: data_lookup weight_lookup scenarios_def)
  have h3: "handle (ScenarioClick ''infra-focused'') ?p2 = initialProgram\<lparr>console := [LogStrategy ''balanced'', LogWeights initialWeights],
     showResults := True, resultsScreen := Some \<lparr>selectedScenario = ''infra-focused'', selectedCountry = Some ''KOR''\<rparr>\<rparr>"
    by (simp add: h2) (simp add: handler_defs)
  show ?thesis by (simp add: s1 s2 s3 h3)
qed

lemma wellformed_renders:
  assumes "wellformed p" "showResults p"
  shows "\<exists>st rs w c r.
           resultsScreen p = Some st \<and>
           map_of (dataTable p) (selectedScenario st) = Some rs \<and>
           map_of (weightTable p) (selectedScenario st) = Some w \<and>
           find (\<lambda>x. Some (iso x) = selectedCountry st) rs = Some r \<and>
           App p = Inr (Results
             \<lparr>backButton = Back,
              tabs = ScenarioTabs (selectedScenario st),
              activeScenario = replace_first (CHR ''-'') (CHR '' '') (selectedScenario st),
              infoWeights = [(''RC'', Fixed 2 (rc w)), (''GDP'', Fixed 2 (gdp w)),
                             (''Infra'', Fixed 2 (infra w)), (''Job'', Fixed 2 (job w))],
              table = ResultsTable rs (selectedCountry st),
              card = CountryDetailCard (Some r)\<rparr>)"
proof -
  from assms obtain st c where st: "resultsScreen p = Some st"
      and sc: "selectedScenario st \<in> set (map tab_id scenarios)"
      and cc: "selectedCountry st = Some c" "c \<in> set countryCodes"
      and tb: "dataTable p = scenarioData" "weightTable p = scenarioWeights"
    by (auto simp: wellformed_def split: option.splits)
  from lookup_tab[OF sc] obtain rs w where
      rs: "map_of scenarioData (selectedScenario st) = Some rs" and
      ws: "map_of scenarioWeights (selectedScenario st) = Some w"
    by blast
  from lookup_codes[OF rs] cc(2) have "c \<in> iso ` set rs" by simp
  with cc(1) have "\<exists>x \<in> set rs. Some (iso x) = selectedCountry st"
    by auto
  then obtain r where r: "find (\<lambda>x. Some (iso x) = selectedCountry st) rs = Some r"
    by (cases "find (\<lambda>x. Some (iso x) = selectedCountry st) rs") (auto simp: find_None_iff)
  have "App p = map_sum (\<lambda>e. e) Results (ResultsScreen scenarioData scenarioWeights st)"
    using assms(2) st tb by (simp add: App_def)
  with r show ?thesis
    by (simp add: st tb rs ws ResultsScreen_Some[OF rs ws] selectedCountryDetail_def)
qed


lemma metrics_in_table:
  "\<forall>(k, rs) \<in> set scenarioData. \<forall>r \<in> set rs.
     (iso r, rcScore r, gdpPerCapita r, digitalInfra r, jobMarket r) \<in> set metricsTable"
  by (simp add: scenarioData_def results_defs metricsTable_def)

lemma metricsTable_functional:
  "\<forall>x \<in> set metricsTable. \<forall>y \<in> set metricsTable. fst x = fst y \<longrightarrow> x = y"
  by (simp add: metricsTable_def)

lemma metrics_agree:
  assumes "(k1, rs1) \<in> set scenarioData" "(k2, rs2) \<in> set scenarioData"
       "r1 \<in> set rs1" "r2 \<in> set rs2" "iso r1 = iso r2"
  shows "rcScore r1 = rcScore r2 \<and> gdpPerCapita r1 = gdpPerCapita r2 \<and>
          digitalInfra r1 = digitalInfra r2 \<and> jobMarket r1 = jobMarket r2"
proof -
  let ?m = "\<lambda>r. (iso r, rcScore r, gdpPerCapita r, digitalInfra r, jobMarket r)"
  from bspec[OF metrics_in_table assms(1)] assms(3)
  have m1: "?m r1 \<in> set metricsTable" by simp
  from bspec[OF metrics_in_table assms(2)] assms(4)
  have m2: "?m r2 \<in> set metricsTable" by simp
  from bspec[OF bspec[OF metricsTable_functional m1] m2] assms(5)
  show ?thesis by simp
qed

lemma mounted_card:
  assumes "run initialProgram es = Some p" "showResults p"
  shows "\<exists>st currentResults r v.
         resultsScreen p = Some st \<and>
         map_of (dataTable p) (selectedScenario st) = Some currentResults \<and>
         selectedCountryDetail currentResults (selectedCountry st) = Some r \<and>
         App p = Inr (Results v) \<and> card v = CountryDetailCard (Some r) \<and>
         (\<forall>t. card v \<noteq> Placeholder t)"
proof -
  from wellformed_run[OF wellformed_initial assms(1)] have wf: "wellformed p" .
  from wellformed_renders[OF wf assms(2)] show ?thesis
    by (clarsimp simp: selectedCountryDetail_def)
qed

text \<open>Pages that agree outside the configuration render alike and stay so under tab and
  row clicks.\<close>

lemma same_results_App:
  assumes "same_results p q" "showResults p"
  shows "App p = App q"
  using assms by (simp add: same_results_def App_def)

lemma same_results_handle:
  assumes "results_event e" "same_results p q"
  shows "same_results (handle e p) (handle e q)"
  using assms
  by (cases e) (simp_all add: same_results_def handler_defs split: option.split)

lemma results_event_stays:
  assumes "results_event e" "showResults p"
  shows "showResults (handle e p)"
  using assms
  by (cases e) (simp_all add: handler_defs split: option.split)

lemma same_results_fold:
  assumes "\<forall>e \<in> set es. results_event e" "same_results p q" "showResults p"
  shows "same_results (fold handle es p) (fold handle es q) \<and> showResults (fold handle es p)"
  using assms
proof (induction es arbitrary: p q)
  case Nil
  then show ?case by simp
next
  case (Cons e es)
  from Cons.prems(1) have e: "results_event e" and es: "\<forall>e \<in> set es. results_event e"
    by simp_all
  from Cons.IH[OF es same_results_handle[OF e Cons.prems(2)] results_event_stays[OF e Cons.prems(3)]]
  show ?case by simp
qed

lemma same_results_step:
  assumes "same_results p q" "showResults p"
  shows "step q e = map_option (\<lambda>x. handle e q) (step p e)"
proof -
  from same_results_App[OF assms] have "App p = App q" .
  then show ?thesis
    by (simp add: step_def split: sum.split)
qed

lemma step_handle: "step p e = Some p' \<Longrightarrow> p' = handle e p"
  by (auto simp: step_def split: sum.splits if_splits)

lemma same_results_run:
  assumes "\<forall>e \<in> set es. results_event e" "same_results p q" "showResults p"
  shows "map_option App (run p es) = map_option App (run q es)"
  using assms
proof (induction es arbitrary: p q)
  case Nil
  then show ?case by (simp add: same_results_App)
next
  case (Cons e es)
  from Cons.prems(1) have e: "results_event e" and es: "\<forall>e \<in> set es. results_event e"
    by simp_all
  note sq = same_results_step[OF Cons.prems(2,3), of e]
  show ?case
  proof (cases "step p e")
    case None
    with sq show ?thesis by simp
  next
    case (Some p')
    from step_handle[OF Some] have p': "p' = handle e p" .
    from sq Some have q': "step q e = Some (handle e q)" by simp
    from Cons.IH[OF es same_results_handle[OF e Cons.prems(2)]
        results_event_stays[OF e Cons.prems(3)]]
    show ?thesis by (simp add: Some q' p')
  qed
qed

lemma same_results_mount:
  assumes "dataTable p1 = dataTable p2" "weightTable p1 = weightTable p2"
    "\<not> showResults p1" "\<not> showResults p2" "resultsScreen p1 = None" "resultsScreen p2 = None"
  shows "same_results (handle RunAnalysis p1) (handle RunAnalysis p2)"
    and "showResults (handle RunAnalysis p1)"
  using assms by (simp_all add: same_results_def handler_defs)

section \<open>The static tables\<close>

text \<open>
  Claim C5. In every one of the five scenario datasets, each record's \<^verbatim>\<open>rank\<close> equals
  its 1-based position in the list, the \<^verbatim>\<open>topsisScore\<close> values are strictly decreasing
  down the list, and every \<^verbatim>\<open>topsisScore\<close> lies strictly between 0 and 1.
\<close>

theorem scenarioData_ranked:
  "\<forall>(k, rs) \<in> set scenarioData.
     map rank rs = map of_nat [1..<Suc (length rs)] \<and>
     sorted_wrt (\<lambda>a b. b < a) (map topsisScore rs) \<and>
     (\<forall>r \<in> set rs. 0 < topsisScore r \<and> topsisScore r < 1)"
  by (simp add: scenarioData_def results_defs upt_rec)

theorem scenarioData_ranked_witness:
  "map rank infra_focused_results = [1, 2, 3, 4, 5, 6] \<and>
   topsisScore (infra_focused_results ! 1) < topsisScore (infra_focused_results ! 0) \<and>
   topsisScore (infra_focused_results ! 5) < topsisScore (infra_focused_results ! 4) \<and>
   0 < topsisScore (infra_focused_results ! 5) \<and> topsisScore (infra_focused_results ! 0) < 1"
proof -
  have "(''infra-focused'', infra_focused_results) \<in> set scenarioData"
    by (simp add: scenarioData_def)
  with scenarioData_ranked have
    r: "map rank infra_focused_results = map of_nat [1..<Suc (length infra_focused_results)]" and
    s: "sorted_wrt (\<lambda>a b. b < a) (map topsisScore infra_focused_results)" and
    b: "\<forall>r \<in> set infra_focused_results. 0 < topsisScore r \<and> topsisScore r < 1"
    by auto
  have len: "length infra_focused_results = 6" by (simp add: infra_focused_results_def)
  from r len have "map rank infra_focused_results = [1, 2, 3, 4, 5, 6]"
    by (simp add: upt_rec)
  moreover from s len have
    "topsisScore (infra_focused_results ! 1) < topsisScore (infra_focused_results ! 0)"
    "topsisScore (infra_focused_results ! 5) < topsisScore (infra_focused_results ! 4)"
    by (simp_all add: sorted_wrt_iff_nth_less)
  moreover from b len have "0 < topsisScore (infra_focused_results ! 5)"
    "topsisScore (infra_focused_results ! 0) < 1"
    by simp_all
  ultimately show ?thesis by simp
qed

text \<open>
  Claim C8. The keys of \<^verbatim>\<open>scenarioWeights\<close> are the five scenario identifiers; for every
  one of them the four weights sum to exactly 1; \<^verbatim>\<open>balanced\<close> gives 0.25 to each
  criterion, and each focused scenario gives 0.40 to the criterion it emphasises (talent:
  \<^verbatim>\<open>job\<close>, regulation: \<^verbatim>\<open>rc\<close>, market: \<^verbatim>\<open>gdp\<close>, infra: \<^verbatim>\<open>infra\<close>) and 0.20 to each of the
  other three.
\<close>

theorem scenarioWeights_sum:
  "map fst scenarioWeights = map tab_id scenarios \<and>
   (\<forall>(k, w) \<in> set scenarioWeights. rc w + gdp w + infra w + job w = 1) \<and>
   map_of scenarioWeights ''balanced'' =
     Some \<lparr>rc = 0.25, gdp = 0.25, infra = 0.25, job = 0.25\<rparr> \<and>
   map_of scenarioWeights ''talent-focused'' =
     Some \<lparr>rc = 0.20, gdp = 0.20, infra = 0.20, job = 0.40\<rparr> \<and>
   map_of scenarioWeights ''regulation-focused'' =
     Some \<lparr>rc = 0.40, gdp = 0.20, infra = 0.20, job = 0.20\<rparr> \<and>
   map_of scenarioWeights ''market-focused'' =
     Some \<lparr>rc = 0.20, gdp = 0.40, infra = 0.20, job = 0.20\<rparr> \<and>
   map_of scenarioWeights ''infra-focused'' =
     Some \<lparr>rc = 0.20, gdp = 0.20, infra = 0.40, job = 0.20\<rparr>"
  by (simp add: scenarioWeights_def scenarios_def)

theorem scenarioWeights_sum_witness:
  "(0.20 :: number) + 0.40 + 0.20 + 0.20 = 1 \<and>
   (\<exists>w. (''market-focused'', w) \<in> set scenarioWeights \<and> rc w + gdp w + infra w + job w = 1)"
proof -
  have m: "(''market-focused'', \<lparr>rc = 0.20, gdp = 0.40, infra = 0.20, job = 0.20\<rparr>)
            \<in> set scenarioWeights"
    using scenarioWeights_sum by (auto dest: map_of_SomeD)
  with scenarioWeights_sum have
    "rc \<lparr>rc = 0.20, gdp = 0.40, infra = 0.20, job = 0.20 :: number\<rparr> +
     gdp \<lparr>rc = 0.20, gdp = 0.40, infra = 0.20, job = 0.20 :: number\<rparr> +
     infra \<lparr>rc = 0.20, gdp = 0.40, infra = 0.20, job = 0.20 :: number\<rparr> +
     job \<lparr>rc = 0.20, gdp = 0.40, infra = 0.20, job = 0.20 :: number\<rparr> = 1"
    by fastforce
  with m show ?thesis by auto
qed

section \<open>Event handlers\<close>

text \<open>
  Claim C7. \<^verbatim>\<open>handleWeightChange(id, value)\<close> keeps the length and the order of the weight
  list; at every position the entry becomes the old entry with \<^verbatim>\<open>value\<close> replaced when
  its id is the given one, and stays the old entry otherwise; the ids, labels and
  technical labels of the list are unchanged; when no weight has the given id the list
  is unchanged; and nothing but the weight list changes.
\<close>

theorem handleWeightChange_frame:
  "length (weights (handleWeightChange i v p)) = length (weights p) \<and>
   (\<forall>k < length (weights p).
      weights (handleWeightChange i v p) ! k =
        (if id' (weights p ! k) = i then (weights p ! k)\<lparr>value' := v\<rparr> else weights p ! k)) \<and>
   map id' (weights (handleWeightChange i v p)) = map id' (weights p) \<and>
   map label (weights (handleWeightChange i v p)) = map label (weights p) \<and>
   map technicalLabel (weights (handleWeightChange i v p)) = map technicalLabel (weights p) \<and>
   (i \<notin> set (map id' (weights p)) \<longrightarrow> weights (handleWeightChange i v p) = weights p) \<and>
   handleWeightChange i v p = p\<lparr>weights := weights (handleWeightChange i v p)\<rparr>"
proof -
  have "i \<notin> set (map id' (weights p)) \<longrightarrow> weights (handleWeightChange i v p) = weights p"
    by (auto simp: handleWeightChange_def intro!: map_idI)
  moreover have "map id' (weights (handleWeightChange i v p)) = map id' (weights p)"
    "map label (weights (handleWeightChange i v p)) = map label (weights p)"
    "map technicalLabel (weights (handleWeightChange i v p)) = map technicalLabel (weights p)"
    by (simp_all add: handleWeightChange_def comp_def if_distrib cong: if_cong)
  ultimately show ?thesis
    by (simp add: handleWeightChange_def)
qed

theorem handleWeightChange_frame_witness:
  "weights (handleWeightChange ''market'' 60 initialProgram) ! 1 =
     \<lparr>id' = ''market'', label = ''Market Size'', technicalLabel = ''gdp_per_capita'',
       value' = 60\<rparr> \<and>
   weights (handleWeightChange ''market'' 60 initialProgram) ! 0 = weights initialProgram ! 0 \<and>
   ''budget'' \<notin> set (map id' (weights initialProgram)) \<and>
   weights (handleWeightChange ''budget'' 60 initialProgram) = weights initialProgram"
proof -
  have len: "length (weights initialProgram) = 4"
    by (simp add: initialProgram_def initialWeights_def)
  have nb: "''budget'' \<notin> set (map id' (weights initialProgram))"
    by (simp add: initialProgram_def initialWeights_def)
  from handleWeightChange_frame[of "''market''" 60 initialProgram] len
  have "weights (handleWeightChange ''market'' 60 initialProgram) ! 1 =
          (if id' (weights initialProgram ! 1) = ''market''
           then (weights initialProgram ! 1)\<lparr>value' := 60\<rparr> else weights initialProgram ! 1)"
    and "weights (handleWeightChange ''market'' 60 initialProgram) ! 0 =
          (if id' (weights initialProgram ! 0) = ''market''
           then (weights initialProgram ! 0)\<lparr>value' := 60\<rparr> else weights initialProgram ! 0)"
    by simp_all
  moreover from handleWeightChange_frame[of "''budget''" 60 initialProgram] nb
  have "weights (handleWeightChange ''budget'' 60 initialProgram) = weights initialProgram"
    by blast
  ultimately show ?thesis using nb
    by (simp add: initialProgram_def initialWeights_def)
qed

text \<open>
  Claim C4. No event handler writes to the lookup tables: after any event, and after any
  sequence of events, \<^verbatim>\<open>scenarioData\<close> and \<^verbatim>\<open>scenarioWeights\<close> are what they were before.
  A handler changes hook state only (\<^verbatim>\<open>showResults\<close>, \<^verbatim>\<open>selectedStrategy\<close>, \<^verbatim>\<open>weights\<close>, and
  the \<^verbatim>\<open>selectedScenario\<close> and \<^verbatim>\<open>selectedCountry\<close> of the results screen), besides the two
  lines \<^verbatim>\<open>handleRunAnalysis\<close> prints on the console.
\<close>

theorem tables_never_mutated:
  "dataTable (handle e p) = dataTable p \<and> weightTable (handle e p) = weightTable p \<and>
   dataTable (fold handle es p) = dataTable p \<and> weightTable (fold handle es p) = weightTable p \<and>
   handle e p =
     p\<lparr>console := console (handle e p), showResults := showResults (handle e p),
       selectedStrategy := selectedStrategy (handle e p), weights := weights (handle e p),
       resultsScreen := resultsScreen (handle e p)\<rparr>"
proof -
  have "dataTable (fold handle es p) = dataTable p \<and> weightTable (fold handle es p) = weightTable p"
    by (induction es arbitrary: p) (simp_all add: handle_tables)
  then show ?thesis by (simp add: handle_tables)
qed

section \<open>The results screen\<close>

text \<open>
  Claim C3. \<^verbatim>\<open>CountryDetailCard\<close> returns the placeholder ``Select a country to view
  details'' if and only if its \<^verbatim>\<open>countryDetail\<close> prop is \<^verbatim>\<open>null\<close>; the placeholder is a
  constant of the component, so no field of a country record enters it.
  \<^verbatim>\<open>ResultsScreen\<close> passes \<^verbatim>\<open>null\<close> exactly when no record of the list stored under the
  selected scenario has an \<^verbatim>\<open>iso\<close> equal to the selected country, and the card it shows is
  \<^verbatim>\<open>CountryDetailCard\<close> of that prop.
\<close>

theorem placeholder_iff_null:
  "(CountryDetailCard countryDetail = Placeholder ''Select a country to view details''
      \<longleftrightarrow> countryDetail = None) \<and>
   (\<forall>t. CountryDetailCard countryDetail = Placeholder t \<longrightarrow> countryDetail = None) \<and>
   (selectedCountryDetail currentResults selected = None
      \<longleftrightarrow> \<not> (\<exists>c \<in> set currentResults. Some (iso c) = selected)) \<and>
   (ResultsScreen dt wt st = Inr v \<longrightarrow>
      (\<exists>currentResults. map_of dt (selectedScenario st) = Some currentResults \<and>
         card v = CountryDetailCard (selectedCountryDetail currentResults (selectedCountry st))))"
proof -
  have a: "CountryDetailCard countryDetail = Placeholder t \<longrightarrow> countryDetail = None" for t
    by (cases countryDetail) simp_all
  have b: "selectedCountryDetail currentResults selected = None
      \<longleftrightarrow> \<not> (\<exists>c \<in> set currentResults. Some (iso c) = selected)"
    by (auto simp: selectedCountryDetail_def find_None_iff)
  have c: "ResultsScreen dt wt st = Inr v \<longrightarrow>
      (\<exists>currentResults. map_of dt (selectedScenario st) = Some currentResults \<and>
         card v = CountryDetailCard (selectedCountryDetail currentResults (selectedCountry st)))"
    by (auto simp: ResultsScreen_def split: option.splits)
  from a b c show ?thesis by auto
qed

theorem placeholder_iff_null_witness:
  "CountryDetailCard None = Placeholder ''Select a country to view details'' \<and>
   selectedCountryDetail balanced_results (Some ''FRA'') = None \<and>
   selectedCountryDetail balanced_results None = None \<and>
   selectedCountryDetail balanced_results (Some ''DEU'') \<noteq> None \<and>
   (\<exists>v. ResultsScreen scenarioData scenarioWeights
          \<lparr>selectedScenario = ''balanced'', selectedCountry = Some ''FRA''\<rparr> = Inr v \<and>
        card v = Placeholder ''Select a country to view details'')"
proof -
  have n1: "\<not> (\<exists>c \<in> set balanced_results. Some (iso c) = Some ''FRA'')"
    by (simp add: balanced_results_def)
  have n2: "\<not> (\<exists>c \<in> set balanced_results. Some (iso c) = None)"
    by simp
  have n3: "\<exists>c \<in> set balanced_results. Some (iso c) = Some ''DEU''"
    by (simp add: balanced_results_def)
  note t = placeholder_iff_null
  from t[of None balanced_results "Some ''FRA''"] n1
  have f1: "selectedCountryDetail balanced_results (Some ''FRA'') = None" by blast
  from t[of None balanced_results None] n2
  have f2: "selectedCountryDetail balanced_results None = None" by blast
  from t[of None balanced_results "Some ''DEU''"] n3
  have f3: "selectedCountryDetail balanced_results (Some ''DEU'') \<noteq> None" by blast
  from t[of None] have f0: "CountryDetailCard None = Placeholder ''Select a country to view details''"
    by blast
  obtain v where v: "ResultsScreen scenarioData scenarioWeights
          \<lparr>selectedScenario = ''balanced'', selectedCountry = Some ''FRA''\<rparr> = Inr v"
    by (simp add: ResultsScreen_def scenarioData_def scenarioWeights_def)
  from t[of None balanced_results None scenarioData scenarioWeights
          "\<lparr>selectedScenario = ''balanced'', selectedCountry = Some ''FRA''\<rparr>" v] v
  have "\<exists>currentResults. map_of scenarioData ''balanced'' = Some currentResults \<and>
         card v = CountryDetailCard (selectedCountryDetail currentResults (Some ''FRA''))"
    by simp
  then have "card v = CountryDetailCard (selectedCountryDetail balanced_results (Some ''FRA''))"
    by (simp add: scenarioData_def)
  with f1 f0 have "card v = Placeholder ''Select a country to view details''" by simp
  with v f0 f1 f2 f3 show ?thesis by blast
qed

text \<open>
  Claim C1. On a mounted results screen over the static tables, a click on the tab of any
  of the five scenario identifiers re-renders the page so that the table has one row per
  record of \<^verbatim>\<open>scenarioData[scenario]\<close>, in the stored order, each row showing that record's
  rank, code, name, score and four indicators, and so that the info bar shows the four
  weights of \<^verbatim>\<open>scenarioWeights[scenario]\<close>, each through \<^verbatim>\<open>toFixed(2)\<close>.
\<close>

theorem scenario_selection_renders_dataset:
  assumes "dataTable p = scenarioData" and "weightTable p = scenarioWeights"
    and "showResults p" and "resultsScreen p = Some st"
    and "scenario \<in> set (map tab_id scenarios)"
  shows "\<exists>currentResults currentWeights v.
           map_of scenarioData scenario = Some currentResults \<and>
           map_of scenarioWeights scenario = Some currentWeights \<and>
           App (handle (ScenarioClick scenario) p) = Inr (Results v) \<and>
           length (table v) = length currentResults \<and>
           map row_cells (table v) =
             map (\<lambda>r. [Plain (rank r), Str (iso r), Str (country r), Fixed 3 (topsisScore r),
                        Fixed 2 (rcScore r), Locale (gdpPerCapita r), Fixed 2 (digitalInfra r),
                        Fixed 2 (jobMarket r)]) currentResults \<and>
           infoWeights v =
             [(''RC'', Fixed 2 (rc currentWeights)), (''GDP'', Fixed 2 (gdp currentWeights)),
              (''Infra'', Fixed 2 (infra currentWeights)), (''Job'', Fixed 2 (job currentWeights))]"
proof -
  let ?st = "st\<lparr>selectedScenario := scenario\<rparr>"
  from assms(5) have sc: "selectedScenario ?st \<in> set (map tab_id scenarios)" by simp
  from lookup_tab[OF sc] obtain rs w where
      rs: "map_of scenarioData (selectedScenario ?st) = Some rs" and
      ws: "map_of scenarioWeights (selectedScenario ?st) = Some w"
    by blast
  have p': "handle (ScenarioClick scenario) p = p\<lparr>resultsScreen := Some ?st\<rparr>"
    using assms(3,4) by (simp add: handler_defs)
  have "App (handle (ScenarioClick scenario) p) =
          map_sum (\<lambda>e. e) Results (ResultsScreen scenarioData scenarioWeights ?st)"
    using assms(1,2,3) by (simp add: p' App_def)
  also note ResultsScreen_Some[OF rs ws]
  finally have "App (handle (ScenarioClick scenario) p) = Inr (Results
             \<lparr>backButton = Back,
                  tabs = ScenarioTabs (selectedScenario ?st),
                  activeScenario = replace_first (CHR ''-'') (CHR '' '') (selectedScenario ?st),
                  infoWeights = [(''RC'', Fixed 2 (rc w)), (''GDP'', Fixed 2 (gdp w)),
                                 (''Infra'', Fixed 2 (infra w)), (''Job'', Fixed 2 (job w))],
                  table = ResultsTable rs (selectedCountry ?st),
                  card = CountryDetailCard (selectedCountryDetail rs (selectedCountry ?st))\<rparr>)"
    by simp
  with rs ws show ?thesis
    by (simp add: ResultsTable_def ResultsTable_row_def comp_def)
qed

theorem scenario_selection_renders_dataset_witness:
  "dataTable (handle RunAnalysis initialProgram) = scenarioData \<and>
   weightTable (handle RunAnalysis initialProgram) = scenarioWeights \<and>
   showResults (handle RunAnalysis initialProgram) \<and>
   resultsScreen (handle RunAnalysis initialProgram) = Some initialResultsState \<and>
   ''market-focused'' \<in> set (map tab_id scenarios) \<and>
   (\<exists>v. App (handle (ScenarioClick ''market-focused'') (handle RunAnalysis initialProgram)) =
          Inr (Results v) \<and>
        map (\<lambda>row. row_cells row ! 1) (table v) =
          [Str ''USA'', Str ''CAN'', Str ''AUS'', Str ''DEU'', Str ''GBR'', Str ''KOR''] \<and>
        map (\<lambda>row. row_cells row ! 3) (table v) =
          [Fixed 3 0.905, Fixed 3 0.871, Fixed 3 0.847, Fixed 3 0.823, Fixed 3 0.798,
           Fixed 3 0.721] \<and>
        infoWeights v = [(''RC'', Fixed 2 0.20), (''GDP'', Fixed 2 0.40),
                         (''Infra'', Fixed 2 0.20), (''Job'', Fixed 2 0.20)])"
proof -
  let ?p = "handle RunAnalysis initialProgram"
  have f: "dataTable ?p = scenarioData" "weightTable ?p = scenarioWeights" "showResults ?p"
    "resultsScreen ?p = Some initialResultsState"
    "''market-focused'' \<in> set (map tab_id scenarios)"
    by (simp_all add: handle_RunAnalysis_initial initial_fields scenarios_def)
  from scenario_selection_renders_dataset[OF f]
  obtain v where v: "App (handle (ScenarioClick ''market-focused'') ?p) = Inr (Results v)"
    "map row_cells (table v) =
             map (\<lambda>r. [Plain (rank r), Str (iso r), Str (country r), Fixed 3 (topsisScore r),
                        Fixed 2 (rcScore r), Locale (gdpPerCapita r), Fixed 2 (digitalInfra r),
                        Fixed 2 (jobMarket r)]) market_focused_results"
    "infoWeights v =
             [(''RC'', Fixed 2 0.20), (''GDP'', Fixed 2 0.40),
              (''Infra'', Fixed 2 0.20), (''Job'', Fixed 2 0.20)]"
    by (auto simp: data_lookup weight_lookup)
  have "map (\<lambda>row. row_cells row ! 1) (table v) = map (\<lambda>c. c ! 1) (map row_cells (table v))"
    "map (\<lambda>row. row_cells row ! 3) (table v) = map (\<lambda>c. c ! 3) (map row_cells (table v))"
    by simp_all
  with v(2) have "map (\<lambda>row. row_cells row ! 1) (table v) =
          [Str ''USA'', Str ''CAN'', Str ''AUS'', Str ''DEU'', Str ''GBR'', Str ''KOR'']"
     "map (\<lambda>row. row_cells row ! 3) (table v) =
          [Fixed 3 0.905, Fixed 3 0.871, Fixed 3 0.847, Fixed 3 0.823, Fixed 3 0.798,
           Fixed 3 0.721]"
    by (simp_all add: market_focused_results_def)
  with v(1,3) f show ?thesis
    by (intro conjI exI[of _ v]) assumption+
qed

text \<open>
  Claim C2. On every page reachable from the initial one by events the rendered pages
  offer, the render does not throw; while the results screen is shown, its scenario is one
  of the tab identifiers and both \<^verbatim>\<open>scenarioData[selectedScenario]\<close> and
  \<^verbatim>\<open>scenarioWeights[selectedScenario]\<close> are defined.
\<close>

theorem lookups_defined_on_every_run:
  assumes "run initialProgram es = Some p"
  shows "(\<exists>v. App p = Inr v) \<and>
         (showResults p \<longrightarrow>
            (\<exists>st currentResults currentWeights.
               resultsScreen p = Some st \<and>
               selectedScenario st \<in> set (map tab_id scenarios) \<and>
               map_of (dataTable p) (selectedScenario st) = Some currentResults \<and>
               map_of (weightTable p) (selectedScenario st) = Some currentWeights))"
proof -
  from wellformed_run[OF wellformed_initial assms] have wf: "wellformed p" .
  show ?thesis
  proof (cases "showResults p")
    case True
    from wellformed_renders[OF wf True] wf True show ?thesis
      by (auto simp: wellformed_def)
  next
    case False
    then show ?thesis by (simp add: App_def)
  qed
qed

theorem lookups_defined_on_every_run_witness:
  "run initialProgram [RunAnalysis, RowClick ''KOR'', ScenarioClick ''infra-focused''] =
     Some (initialProgram
       \<lparr>console := [LogStrategy ''balanced'', LogWeights initialWeights],
        showResults := True,
        resultsScreen :=
          Some \<lparr>selectedScenario = ''infra-focused'', selectedCountry = Some ''KOR''\<rparr>\<rparr>) \<and>
   (\<exists>v. App (initialProgram
       \<lparr>console := [LogStrategy ''balanced'', LogWeights initialWeights],
        showResults := True,
        resultsScreen :=
          Some \<lparr>selectedScenario = ''infra-focused'', selectedCountry = Some ''KOR''\<rparr>\<rparr>) = Inr v) \<and>
   map_of scenarioData ''infra-focused'' \<noteq> None \<and>
   map_of scenarioWeights ''infra-focused'' \<noteq> None"
proof -
  let ?p = "initialProgram
       \<lparr>console := [LogStrategy ''balanced'', LogWeights initialWeights],
        showResults := True,
        resultsScreen :=
          Some \<lparr>selectedScenario = ''infra-focused'', selectedCountry = Some ''KOR''\<rparr>\<rparr>"
  note r = run_to_infra_KOR
  from lookups_defined_on_every_run[OF r]
  have a: "\<exists>v. App ?p = Inr v"
    and b: "showResults ?p \<longrightarrow>
            (\<exists>st currentResults currentWeights.
               resultsScreen ?p = Some st \<and>
               selectedScenario st \<in> set (map tab_id scenarios) \<and>
               map_of (dataTable ?p) (selectedScenario st) = Some currentResults \<and>
               map_of (weightTable ?p) (selectedScenario st) = Some currentWeights)"
    by blast+
  from b have "map_of scenarioData ''infra-focused'' \<noteq> None \<and>
     map_of scenarioWeights ''infra-focused'' \<noteq> None"
    by (auto simp: initial_fields)
  with r a show ?thesis by blast
qed

text \<open>
  Claim C10. Every one of the five datasets holds the six codes USA, GBR, CAN, AUS, DEU
  and KOR, each once; two records with the same code, from any two datasets, agree on
  \<^verbatim>\<open>rcScore\<close>, \<^verbatim>\<open>gdpPerCapita\<close>, \<^verbatim>\<open>digitalInfra\<close> and \<^verbatim>\<open>jobMarket\<close>; and on every
  reachable page that shows the results screen the \<^verbatim>\<open>find\<close> lookup succeeds, so the detail
  card shows a country and never the placeholder.
\<close>

theorem same_countries_in_every_scenario:
  "(\<forall>(k, rs) \<in> set scenarioData.
      distinct (map iso rs) \<and>
      set (map iso rs) = {''USA'', ''GBR'', ''CAN'', ''AUS'', ''DEU'', ''KOR''}) \<and>
   (\<forall>(k1, rs1) \<in> set scenarioData. \<forall>(k2, rs2) \<in> set scenarioData.
      \<forall>r1 \<in> set rs1. \<forall>r2 \<in> set rs2.
        iso r1 = iso r2 \<longrightarrow>
          rcScore r1 = rcScore r2 \<and> gdpPerCapita r1 = gdpPerCapita r2 \<and>
          digitalInfra r1 = digitalInfra r2 \<and> jobMarket r1 = jobMarket r2) \<and>
   (run initialProgram es = Some p \<and> showResults p \<longrightarrow>
      (\<exists>st currentResults r v.
         resultsScreen p = Some st \<and>
         map_of (dataTable p) (selectedScenario st) = Some currentResults \<and>
         selectedCountryDetail currentResults (selectedCountry st) = Some r \<and>
         App p = Inr (Results v) \<and> card v = CountryDetailCard (Some r) \<and>
         (\<forall>t. card v \<noteq> Placeholder t)))"
proof (intro conjI)
  show "\<forall>(k, rs) \<in> set scenarioData.
      distinct (map iso rs) \<and>
      set (map iso rs) = {''USA'', ''GBR'', ''CAN'', ''AUS'', ''DEU'', ''KOR''}"
    using data_codes by (simp add: countryCodes_def case_prod_unfold)
  show "\<forall>(k1, rs1) \<in> set scenarioData. \<forall>(k2, rs2) \<in> set scenarioData.
      \<forall>r1 \<in> set rs1. \<forall>r2 \<in> set rs2.
        iso r1 = iso r2 \<longrightarrow>
          rcScore r1 = rcScore r2 \<and> gdpPerCapita r1 = gdpPerCapita r2 \<and>
          digitalInfra r1 = digitalInfra r2 \<and> jobMarket r1 = jobMarket r2"
  proof (intro ballI impI, unfold case_prod_unfold, intro ballI impI)
    fix x y r1 r2
    assume "x \<in> set scenarioData" "y \<in> set scenarioData" "r1 \<in> set (snd x)"
      "r2 \<in> set (snd y)" "iso r1 = iso r2"
    then show "rcScore r1 = rcScore r2 \<and> gdpPerCapita r1 = gdpPerCapita r2 \<and>
          digitalInfra r1 = digitalInfra r2 \<and> jobMarket r1 = jobMarket r2"
      using metrics_agree[of "fst x" "snd x" "fst y" "snd y" r1 r2] by simp
  qed
  show "run initialProgram es = Some p \<and> showResults p \<longrightarrow>
      (\<exists>st currentResults r v.
         resultsScreen p = Some st \<and>
         map_of (dataTable p) (selectedScenario st) = Some currentResults \<and>
         selectedCountryDetail currentResults (selectedCountry st) = Some r \<and>
         App p = Inr (Results v) \<and> card v = CountryDetailCard (Some r) \<and>
         (\<forall>t. card v \<noteq> Placeholder t))"
  proof
    assume "run initialProgram es = Some p \<and> showResults p"
    then have "run initialProgram es = Some p" "showResults p" by simp_all
    then show "\<exists>st currentResults r v.
         resultsScreen p = Some st \<and>
         map_of (dataTable p) (selectedScenario st) = Some currentResults \<and>
         selectedCountryDetail currentResults (selectedCountry st) = Some r \<and>
         App p = Inr (Results v) \<and> card v = CountryDetailCard (Some r) \<and>
         (\<forall>t. card v \<noteq> Placeholder t)"
      by (rule mounted_card)
  qed
qed

theorem same_countries_in_every_scenario_witness:
  "distinct (map iso market_focused_results) \<and>
   set (map iso market_focused_results) = {''USA'', ''GBR'', ''CAN'', ''AUS'', ''DEU'', ''KOR''} \<and>
   iso (balanced_results ! 2) = iso (regulation_focused_results ! 0) \<and>
   rcScore (balanced_results ! 2) = rcScore (regulation_focused_results ! 0) \<and>
   jobMarket (balanced_results ! 2) = jobMarket (regulation_focused_results ! 0) \<and>
   run initialProgram [RunAnalysis, RowClick ''KOR'', ScenarioClick ''infra-focused''] =
     Some (initialProgram
       \<lparr>console := [LogStrategy ''balanced'', LogWeights initialWeights],
        showResults := True,
        resultsScreen :=
          Some \<lparr>selectedScenario = ''infra-focused'', selectedCountry = Some ''KOR''\<rparr>\<rparr>) \<and>
   (\<exists>v r. App (initialProgram
       \<lparr>console := [LogStrategy ''balanced'', LogWeights initialWeights],
        showResults := True,
        resultsScreen :=
          Some \<lparr>selectedScenario = ''infra-focused'', selectedCountry = Some ''KOR''\<rparr>\<rparr>)
          = Inr (Results v) \<and> card v = CountryDetailCard (Some r))"
proof -
  let ?p = "initialProgram
       \<lparr>console := [LogStrategy ''balanced'', LogWeights initialWeights],
        showResults := True,
        resultsScreen :=
          Some \<lparr>selectedScenario = ''infra-focused'', selectedCountry = Some ''KOR''\<rparr>\<rparr>"
  note t = same_countries_in_every_scenario[of "[RunAnalysis, RowClick ''KOR'', ScenarioClick ''infra-focused'']" ?p]
  have m: "(''market-focused'', market_focused_results) \<in> set scenarioData"
    and b: "(''balanced'', balanced_results) \<in> set scenarioData"
    and g: "(''regulation-focused'', regulation_focused_results) \<in> set scenarioData"
    by (simp_all add: scenarioData_def)
  from bspec[OF conjunct1[OF t] m]
  have w1: "distinct (map iso market_focused_results) \<and>
   set (map iso market_focused_results) = {''USA'', ''GBR'', ''CAN'', ''AUS'', ''DEU'', ''KOR''}"
    by simp
  have e: "balanced_results ! 2 \<in> set balanced_results"
    "regulation_focused_results ! 0 \<in> set regulation_focused_results"
    "iso (balanced_results ! 2) = iso (regulation_focused_results ! 0)"
    by (simp_all add: balanced_results_def regulation_focused_results_def)
  from bspec[OF conjunct1[OF conjunct2[OF t]] b]
  have "\<forall>(k2, rs2) \<in> set scenarioData.
      \<forall>r1 \<in> set balanced_results. \<forall>r2 \<in> set rs2.
        iso r1 = iso r2 \<longrightarrow>
          rcScore r1 = rcScore r2 \<and> gdpPerCapita r1 = gdpPerCapita r2 \<and>
          digitalInfra r1 = digitalInfra r2 \<and> jobMarket r1 = jobMarket r2"
    by simp
  from bspec[OF this g] e
  have w2: "rcScore (balanced_results ! 2) = rcScore (regulation_focused_results ! 0) \<and>
   jobMarket (balanced_results ! 2) = jobMarket (regulation_focused_results ! 0)"
    by simp
  have sr: "showResults ?p" by simp
  from conjunct2[OF conjunct2[OF t]] run_to_infra_KOR sr
  have w3: "\<exists>v r. App ?p = Inr (Results v) \<and> card v = CountryDetailCard (Some r)"
    by blast
  from w1 w2 e(3) run_to_infra_KOR w3 show ?thesis by simp
qed

text \<open>
  Claim C6. Take any two configuration pages over the same tables, whatever their slider
  values and selected strategies. Pressing Run Analysis on each gives the same results
  page, and the two pages stay the same under any sequence of tab and row clicks, both
  when the handlers are applied directly and when only offered events are run.
\<close>

theorem results_independent_of_configuration:
  assumes "dataTable p1 = dataTable p2" and "weightTable p1 = weightTable p2"
    and "\<not> showResults p1" and "\<not> showResults p2"
    and "resultsScreen p1 = None" and "resultsScreen p2 = None"
    and "\<forall>e \<in> set es. results_event e"
  shows "App (handle RunAnalysis p1) = App (handle RunAnalysis p2) \<and>
         App (fold handle es (handle RunAnalysis p1)) =
           App (fold handle es (handle RunAnalysis p2)) \<and>
         map_option App (run (handle RunAnalysis p1) es) =
           map_option App (run (handle RunAnalysis p2) es)"
proof -
  note m = same_results_mount[OF assms(1-6)]
  from same_results_fold[OF assms(7) m] same_results_App
  have "App (fold handle es (handle RunAnalysis p1)) =
           App (fold handle es (handle RunAnalysis p2))"
    by blast
  with same_results_App[OF m] same_results_run[OF assms(7) m] show ?thesis by simp
qed

theorem results_independent_of_configuration_witness:
  "selectedStrategy (handle (SliderChange ''talent'' 80)
       (handle (StrategyClick ''market-focused'') initialProgram)) = ''market-focused'' \<and>
   selectedStrategy initialProgram = ''balanced'' \<and>
   map value' (weights (handle (SliderChange ''talent'' 80)
       (handle (StrategyClick ''market-focused'') initialProgram))) = [25, 25, 25, 80] \<and>
   map value' (weights initialProgram) = [25, 25, 25, 25] \<and>
   \<not> showResults initialProgram \<and>
   \<not> showResults (handle (SliderChange ''talent'' 80)
       (handle (StrategyClick ''market-focused'') initialProgram)) \<and>
   results_event (ScenarioClick ''balanced'') \<and> results_event (RowClick ''DEU'') \<and>
   App (fold handle [ScenarioClick ''balanced'', RowClick ''DEU''] (handle RunAnalysis initialProgram)) =
   App (fold handle [ScenarioClick ''balanced'', RowClick ''DEU'']
         (handle RunAnalysis (handle (SliderChange ''talent'' 80)
            (handle (StrategyClick ''market-focused'') initialProgram))))"
proof -
  let ?q = "handle (SliderChange ''talent'' 80)
       (handle (StrategyClick ''market-focused'') initialProgram)"
  have q: "?q = initialProgram\<lparr>selectedStrategy := ''market-focused'',
      weights := map (\<lambda>w. if id' w = ''talent'' then w\<lparr>value' := 80\<rparr> else w) initialWeights\<rparr>"
    by (simp add: handler_defs initial_fields)
  have f: "dataTable initialProgram = dataTable ?q" "weightTable initialProgram = weightTable ?q"
    "\<not> showResults initialProgram" "\<not> showResults ?q"
    "resultsScreen initialProgram = None" "resultsScreen ?q = None"
    by (simp_all add: q initial_fields)
  have e: "\<forall>e \<in> set [ScenarioClick ''balanced'', RowClick ''DEU'']. results_event e"
    by simp
  have s: "selectedStrategy ?q = ''market-focused''"
    "map value' (weights ?q) = [25, 25, 25, 80]"
    "map value' (weights initialProgram) = [25, 25, 25, 25]"
    by (simp_all add: q initial_fields initialWeights_def)
  from results_independent_of_configuration[OF f e] f(3,4) s show ?thesis
    by (simp add: initial_fields)
qed

text \<open>
  Claim C9. Entering the results screen from a configuration page mounts
  \<^verbatim>\<open>ResultsScreen\<close> with \<^verbatim>\<open>selectedScenario = 'talent-focused'\<close> and
  \<^verbatim>\<open>selectedCountry = 'USA'\<close>, whatever strategy is selected; the rendered page does not
  depend on \<^verbatim>\<open>selectedStrategy\<close>, whose default is \<^verbatim>\<open>'balanced'\<close>; and after choosing
  \<^verbatim>\<open>market-focused\<close> and pressing Run Analysis the page shows the talent-focused
  scenario, so the scenario shown can differ from the strategy chosen.
\<close>

theorem results_screen_ignores_strategy:
  "(\<not> showResults p \<and> resultsScreen p = None \<longrightarrow>
      showResults (handle RunAnalysis p) \<and>
      resultsScreen (handle RunAnalysis p) =
        Some \<lparr>selectedScenario = ''talent-focused'', selectedCountry = Some ''USA''\<rparr> \<and>
      selectedStrategy (handle RunAnalysis p) = selectedStrategy p) \<and>
   App (handle RunAnalysis (p\<lparr>selectedStrategy := s\<rparr>)) = App (handle RunAnalysis p) \<and>
   selectedStrategy initialProgram = ''balanced'' \<and>
   (\<exists>q. run initialProgram [StrategyClick ''market-focused'', RunAnalysis] = Some q \<and>
        selectedStrategy q = ''market-focused'' \<and>
        resultsScreen q =
          Some \<lparr>selectedScenario = ''talent-focused'', selectedCountry = Some ''USA''\<rparr> \<and>
        (\<exists>v. App q = Inr (Results v) \<and> activeScenario v = ''talent focused'' \<and>
             map active (tabs v) = [False, True, False, False, False]))"
proof (intro conjI)
  show "\<not> showResults p \<and> resultsScreen p = None \<longrightarrow>
      showResults (handle RunAnalysis p) \<and>
      resultsScreen (handle RunAnalysis p) =
        Some \<lparr>selectedScenario = ''talent-focused'', selectedCountry = Some ''USA''\<rparr> \<and>
      selectedStrategy (handle RunAnalysis p) = selectedStrategy p"
    by (simp add: handler_defs initialResultsState_def)
  show "App (handle RunAnalysis (p\<lparr>selectedStrategy := s\<rparr>)) = App (handle RunAnalysis p)"
    by (simp add: handler_defs App_def split: option.split)
  show "selectedStrategy initialProgram = ''balanced''"
    by (simp add: initial_fields)
  let ?p1 = "handle (StrategyClick ''market-focused'') initialProgram"
  let ?q = "handle RunAnalysis ?p1"
  have s1: "step initialProgram (StrategyClick ''market-focused'') = Some ?p1"
    by (simp add: step_config initial_fields strategies_def)
  have p1: "?p1 = initialProgram\<lparr>selectedStrategy := ''market-focused''\<rparr>"
    by (simp add: handler_defs initial_fields)
  have s2: "step ?p1 RunAnalysis = Some ?q"
    by (simp add: step_config p1 initial_fields)
  have q: "?q = initialProgram\<lparr>console := [LogStrategy ''market-focused'', LogWeights initialWeights],
      showResults := True, selectedStrategy := ''market-focused'',
      resultsScreen := Some initialResultsState\<rparr>"
    by (simp add: p1) (simp add: handler_defs initial_fields)
  have r: "run initialProgram [StrategyClick ''market-focused'', RunAnalysis] = Some ?q"
    by (simp add: s1 s2)
  have a: "App ?q = map_sum (\<lambda>e. e) Results
             (ResultsScreen scenarioData scenarioWeights initialResultsState)"
    by (simp add: q App_def initial_fields)
  have v: "\<exists>v. App ?q = Inr (Results v) \<and> activeScenario v = ''talent focused'' \<and>
             map active (tabs v) = [False, True, False, False, False]"
    unfolding a
    by (simp add: ResultsScreen_def initialResultsState_def data_lookup weight_lookup
          ScenarioTabs_def scenarios_def)
  show "\<exists>q. run initialProgram [StrategyClick ''market-focused'', RunAnalysis] = Some q \<and>
        selectedStrategy q = ''market-focused'' \<and>
        resultsScreen q =
          Some \<lparr>selectedScenario = ''talent-focused'', selectedCountry = Some ''USA''\<rparr> \<and>
        (\<exists>v. App q = Inr (Results v) \<and> activeScenario v = ''talent focused'' \<and>
             map active (tabs v) = [False, True, False, False, False])"
  proof (intro exI[of _ ?q] conjI)
    show "run initialProgram [StrategyClick ''market-focused'', RunAnalysis] = Some ?q" by (rule r)
    show "selectedStrategy ?q = ''market-focused''" by (simp add: q)
    show "resultsScreen ?q =
          Some \<lparr>selectedScenario = ''talent-focused'', selectedCountry = Some ''USA''\<rparr>"
      by (simp add: q initialResultsState_def)
    show "\<exists>v. App ?q = Inr (Results v) \<and> activeScenario v = ''talent focused'' \<and>
             map active (tabs v) = [False, True, False, False, False]" by (rule v)
  qed
qed

theorem results_screen_ignores_strategy_witness:
  "\<not> showResults initialProgram \<and> resultsScreen initialProgram = None \<and>
   selectedStrategy (handle RunAnalysis initialProgram) = ''balanced'' \<and>
   resultsScreen (handle RunAnalysis initialProgram) =
     Some \<lparr>selectedScenario = ''talent-focused'', selectedCountry = Some ''USA''\<rparr>"
proof -
  have f: "\<not> showResults initialProgram \<and> resultsScreen initialProgram = None"
    by (simp add: initial_fields)
  with results_screen_ignores_strategy[of initialProgram] show ?thesis
    by (simp add: initial_fields)
qed


end
